theory Spec2Isabelle
  imports Complex_Main "HOL-Library.FSet" "HOL-Library.AList"
begin

section \<open>The voting engine of GUGUbot (gugubot/utils/vote_manager.py)\<close>

text \<open>
  The module holds three classes: \<open>VoteTypeRegistry\<close>, \<open>Vote\<close> and \<open>VoteManager\<close>.
  Every method that mutates \<open>self\<close> is modelled as a function that takes the object and
  returns the method's result paired with the updated object.

  Modelling conventions.
  \<^item> A Python \<open>float\<close> (threshold, time stamp, duration) is the real number it denotes.
    The float operations of \<open>check_result\<close> that round, the two quotients \<open>a / b\<close> of
    ints and the subtraction of the two time stamps, round to the nearest binary64
    value, ties to even (\<open>round_binary64\<close>). In \<open>cleanup_finished_votes\<close> the cutoff
    \<open>current_time - keep_recent_minutes * 60\<close> is the exact difference: for a clock
    reading \<open>0 \<le> t < 2^53\<close> and a window not longer than \<open>t\<close> both operands are multiples
    of the unit in the last place of \<open>t\<close>, so binary64 does not round there, and a longer
    window gives a negative cutoff, which no non-negative \<open>start_time\<close> is below with or
    without rounding. Infinities, NaN and the \<open>OverflowError\<close> of turning an int of
    \<open>2^1024\<close> or more into a float are not modelled.
  \<^item> Python \<open>int\<close> values are \<open>int\<close>.
  \<^item> A \<open>Set[str]\<close> is a finite set of strings, \<open>string fset\<close>; \<open>len\<close> is \<open>fcard\<close>.
  \<^item> A \<open>dict\<close> is an association list in insertion order: \<open>d[k] = v\<close> is
    \<open>AList.update\<close> (an existing key keeps its place, a new key goes to the end),
    \<open>del d[k]\<close> is \<open>AList.delete\<close>, \<open>d.get(k)\<close> is \<open>map_of\<close>. A Python dict never
    holds a key twice, which is the condition \<open>distinct (map fst d)\<close>.
  \<^item> \<open>time.time()\<close> is a parameter of every method that reads the clock.
  \<^item> The logger only writes messages and is left out.
  \<^item> A \<open>Vote\<close> object is shared between the manager's dict and its callers; since an
    object is stored under exactly one id, the model keeps the ballot by value under
    its id and writes it back after each mutation.
\<close>

subsection \<open>Status and configuration\<close>

datatype VoteStatus = PENDING | PASSED | REJECTED | CANCELLED | TIMEOUT | ERROR

typedecl callback

datatype py_error = KeyError

record VoteTypeConfig =
  cfg_vote_type :: string
  name_key :: string
  description_key :: string
  cfg_required_percentage :: real
  cfg_timeout :: real
  cfg_callback :: "callback option"
  start_keywords :: "string list"
  consult_keywords :: "string list"

subsection \<open>VoteTypeRegistry\<close>

record VoteTypeRegistry =
  registry :: "(string \<times> VoteTypeConfig) list"
  keyword_map :: "(string \<times> string) list"

definition set_keyword :: "string \<Rightarrow> string \<Rightarrow> VoteTypeRegistry \<Rightarrow> VoteTypeRegistry" where
  "set_keyword vtype keyword r = r\<lparr>keyword_map := AList.update keyword vtype (keyword_map r)\<rparr>"

definition register :: "VoteTypeRegistry \<Rightarrow> VoteTypeConfig \<Rightarrow> bool \<times> VoteTypeRegistry" where
  "register r config =
     (if map_of (registry r) (cfg_vote_type config) \<noteq> None then (False, r)
      else
        let r1 = r\<lparr>registry := AList.update (cfg_vote_type config) config (registry r)\<rparr>;
            r2 = fold (set_keyword (cfg_vote_type config)) (start_keywords config) r1;
            r3 = fold (set_keyword (cfg_vote_type config)) (consult_keywords config) r2
        in (True, r3))"

definition get_config :: "VoteTypeRegistry \<Rightarrow> string \<Rightarrow> VoteTypeConfig option" where
  "get_config r vtype = map_of (registry r) vtype"

definition get_by_keyword ::
  "VoteTypeRegistry \<Rightarrow> string \<Rightarrow> py_error + (VoteTypeConfig \<times> bool) option" where
  "get_by_keyword r keyword =
     (case map_of (keyword_map r) keyword of
        None \<Rightarrow> Inr None
      | Some vtype \<Rightarrow>
          (case map_of (registry r) vtype of
             None \<Rightarrow> Inl KeyError
           | Some config \<Rightarrow> Inr (Some (config, keyword \<in> set (consult_keywords config)))))"

definition get_all_keywords :: "VoteTypeRegistry \<Rightarrow> string list" where
  "get_all_keywords r = map fst (keyword_map r)"

subsection \<open>Float arithmetic\<close>

text \<open>
  Rounding of a real number to binary64, round-to-nearest with ties to even: 53
  significant bits, exponents from \<open>-1022\<close> (below it the spacing stays \<open>2^-1074\<close>, the
  subnormal numbers). The exponent is not bounded from above: a result of magnitude
  \<open>2^1024\<close> or more is \<open>inf\<close> in binary64 (\<open>OverflowError\<close> for a quotient of ints);
  here it stays a number above every finite binary64 value, which compares with a
  finite float as \<open>inf\<close> does. A quotient of two set sizes never gets there, the size of
  a Python set being below \<open>2^63\<close>.
\<close>

definition round_half_even :: "real \<Rightarrow> int" where
  "round_half_even r =
     (let f = \<lfloor>r\<rfloor>; d = r - of_int f
      in if d < 1 / 2 then f else if d > 1 / 2 then f + 1 else if even f then f else f + 1)"

definition binary64_exponent :: "real \<Rightarrow> int" where
  "binary64_exponent x = max \<lfloor>log 2 \<bar>x\<bar>\<rfloor> (- 1022)"

definition round_binary64 :: "real \<Rightarrow> real" where
  "round_binary64 x =
     (if x = 0 then 0
      else let q = 2 powi (binary64_exponent x - 52)
           in of_int (round_half_even (x / q)) * q)"

text \<open>
  \<open>a / b\<close> on two Python ints is the correctly rounded quotient; \<open>x - y\<close> on two floats
  is the correctly rounded difference. \<open>check_result\<close> divides only by a positive
  \<open>total_voters\<close>.
\<close>

definition py_truediv :: "int \<Rightarrow> int \<Rightarrow> real" where
  "py_truediv a b = round_binary64 (real_of_int a / real_of_int b)"

definition float_sub :: "real \<Rightarrow> real \<Rightarrow> real" where
  "float_sub x y = round_binary64 (x - y)"

subsection \<open>Vote\<close>

record Vote =
  vote_id :: string
  vote_type :: string
  initiator :: string
  initiator_id :: string
  eligible_voters :: "string fset"
  required_percentage :: real
  timeout :: real
  callback :: "callback option"
  description :: string
  index :: int
  yes_votes :: "string fset"
  no_votes :: "string fset"
  status :: VoteStatus
  start_time :: real

text \<open>The constructor; its last argument is the clock read for \<open>start_time\<close>.\<close>

definition Vote_init ::
  "string \<Rightarrow> string \<Rightarrow> string \<Rightarrow> string \<Rightarrow> string fset \<Rightarrow> real \<Rightarrow> real \<Rightarrow>
   callback option \<Rightarrow> string \<Rightarrow> int \<Rightarrow> real \<Rightarrow> Vote" where
  "Vote_init vid vtype ini ini_id voters rp tmo cb descr idx now =
     \<lparr> vote_id = vid, vote_type = vtype, initiator = ini, initiator_id = ini_id,
       eligible_voters = voters, required_percentage = max 0 (min 1 rp), timeout = tmo,
       callback = cb, description = descr, index = idx,
       yes_votes = {||}, no_votes = {||}, status = PENDING, start_time = now \<rparr>"

definition cast_vote :: "Vote \<Rightarrow> string \<Rightarrow> bool \<Rightarrow> (bool \<times> bool) \<times> Vote" where
  "cast_vote v voter_id vote_yes =
     (if status v \<noteq> PENDING then ((False, False), v)
      else if voter_id |\<notin>| eligible_voters v then ((False, False), v)
      else
        let is_new_vote = (voter_id |\<notin>| yes_votes v \<and> voter_id |\<notin>| no_votes v);
            v1 = v\<lparr>yes_votes := yes_votes v |-| {|voter_id|}\<rparr>;
            v2 = v1\<lparr>no_votes := no_votes v1 |-| {|voter_id|}\<rparr>;
            v3 = (if vote_yes then v2\<lparr>yes_votes := finsert voter_id (yes_votes v2)\<rparr>
                  else v2\<lparr>no_votes := finsert voter_id (no_votes v2)\<rparr>)
        in ((True, is_new_vote), v3))"

definition withdraw_vote :: "Vote \<Rightarrow> string \<Rightarrow> bool \<times> Vote" where
  "withdraw_vote v voter_id =
     (if status v \<noteq> PENDING then (False, v)
      else if voter_id |\<notin>| eligible_voters v then (False, v)
      else if voter_id |\<notin>| yes_votes v \<and> voter_id |\<notin>| no_votes v then (False, v)
      else
        let v1 = v\<lparr>yes_votes := yes_votes v |-| {|voter_id|}\<rparr>;
            v2 = v1\<lparr>no_votes := no_votes v1 |-| {|voter_id|}\<rparr>
        in (True, v2))"

text \<open>\<open>check_result\<close>; the second argument is the clock read in the timeout test.\<close>

definition check_result :: "Vote \<Rightarrow> real \<Rightarrow> VoteStatus option \<times> Vote" where
  "check_result v now =
     (if status v \<noteq> PENDING then (Some (status v), v)
      else
        let total_voters = int (fcard (eligible_voters v)) in
        if total_voters = 0 then (None, v)
        else
          let yes_count = int (fcard (yes_votes v));
              no_count = int (fcard (no_votes v));
              voted_count = yes_count + no_count;
              current_percentage =
                (if total_voters > 0 then py_truediv yes_count total_voters else 0)
          in
          if current_percentage \<ge> required_percentage v
          then (Some PASSED, v\<lparr>status := PASSED\<rparr>)
          else
            let remaining = total_voters - voted_count;
                max_possible =
                  (if total_voters > 0
                   then py_truediv (yes_count + remaining) total_voters else 0)
            in
            if max_possible < required_percentage v
            then (Some REJECTED, v\<lparr>status := REJECTED\<rparr>)
            else if float_sub now (start_time v) > timeout v
            then (Some TIMEOUT, v\<lparr>status := TIMEOUT\<rparr>)
            else (None, v))"

definition cancel :: "Vote \<Rightarrow> bool \<times> Vote" where
  "cancel v = (if status v \<noteq> PENDING then (False, v) else (True, v\<lparr>status := CANCELLED\<rparr>))"

subsection \<open>Sequences of calls on one ballot\<close>

datatype vote_call = Cast string bool | Withdraw string | Check real | Cancel

fun apply_call :: "Vote \<Rightarrow> vote_call \<Rightarrow> Vote" where
  "apply_call v (Cast voter_id vote_yes) = snd (cast_vote v voter_id vote_yes)"
| "apply_call v (Withdraw voter_id) = snd (withdraw_vote v voter_id)"
| "apply_call v (Check now) = snd (check_result v now)"
| "apply_call v Cancel = snd (cancel v)"

fun apply_calls :: "Vote \<Rightarrow> vote_call list \<Rightarrow> Vote" where
  "apply_calls v [] = v"
| "apply_calls v (c # cs) = apply_calls (apply_call v c) cs"

subsection \<open>Rendering of integers in the ballot id\<close>

definition digit_char :: "nat \<Rightarrow> char" where
  "digit_char d = ''0123456789'' ! d"

fun str_nat :: "nat \<Rightarrow> string" where
  "str_nat n = (if n < 10 then [digit_char n] else str_nat (n div 10) @ [digit_char (n mod 10)])"

declare str_nat.simps [simp del]

definition str_int :: "int \<Rightarrow> string" where
  "str_int i = (if i < 0 then CHR ''-'' # str_nat (nat (- i)) else str_nat (nat i))"

text \<open>\<open>int(x)\<close> on a float truncates towards zero.\<close>

definition int_of_float :: "real \<Rightarrow> int" where
  "int_of_float x = (if x \<ge> 0 then \<lfloor>x\<rfloor> else \<lceil>x\<rceil>)"

subsection \<open>VoteManager\<close>

record VoteManager =
  active_votes :: "(string \<times> Vote) list"
  vote_counter :: int

definition VoteManager_init :: VoteManager where
  "VoteManager_init = \<lparr> active_votes = [], vote_counter = 0 \<rparr>"

definition get_all_pending_votes :: "VoteManager \<Rightarrow> Vote list" where
  "get_all_pending_votes m = filter (\<lambda>v. status v = PENDING) (map snd (active_votes m))"

text \<open>
  \<open>create_vote\<close> reads the clock twice: \<open>t_id\<close> goes into the id, \<open>t_start\<close> is the
  constructor's \<open>start_time\<close>.
\<close>

definition create_vote ::
  "VoteManager \<Rightarrow> string \<Rightarrow> string \<Rightarrow> string \<Rightarrow> string fset \<Rightarrow> real \<Rightarrow> real \<Rightarrow>
   callback option \<Rightarrow> string \<Rightarrow> real \<Rightarrow> real \<Rightarrow> Vote option \<times> VoteManager" where
  "create_vote m vtype ini ini_id voters rp tmo cb descr t_id t_start =
     (if list_ex (\<lambda>v. vote_type v = vtype \<and> status v = PENDING) (map snd (active_votes m))
      then (None, m)
      else
        let m1 = m\<lparr>vote_counter := vote_counter m + 1\<rparr>;
            vid = vtype @ ''_'' @ str_int (vote_counter m1) @ ''_'' @ str_int (int_of_float t_id);
            pending_count = int (length (get_all_pending_votes m1));
            idx = pending_count + 1;
            vote = Vote_init vid vtype ini ini_id voters rp tmo cb descr idx t_start;
            m2 = m1\<lparr>active_votes := AList.update vid vote (active_votes m1)\<rparr>
        in (Some vote, m2))"

definition get_vote :: "VoteManager \<Rightarrow> string \<Rightarrow> Vote option" where
  "get_vote m vid = map_of (active_votes m) vid"

definition get_vote_by_index :: "VoteManager \<Rightarrow> int \<Rightarrow> Vote option" where
  "get_vote_by_index m idx =
     find (\<lambda>v. status v = PENDING \<and> index v = idx) (map snd (active_votes m))"

definition put_vote :: "VoteManager \<Rightarrow> string \<Rightarrow> Vote \<Rightarrow> VoteManager" where
  "put_vote m vid v = m\<lparr>active_votes := AList.update vid v (active_votes m)\<rparr>"

definition mgr_cast_vote ::
  "VoteManager \<Rightarrow> string \<Rightarrow> string \<Rightarrow> bool \<Rightarrow> (bool \<times> bool) \<times> VoteManager" where
  "mgr_cast_vote m vid voter_id vote_yes =
     (case get_vote m vid of
        None \<Rightarrow> ((False, False), m)
      | Some vote \<Rightarrow> (case cast_vote vote voter_id vote_yes of (r, vote') \<Rightarrow> (r, put_vote m vid vote')))"

definition delete_vote :: "VoteManager \<Rightarrow> string \<Rightarrow> bool \<times> VoteManager" where
  "delete_vote m vid =
     (case get_vote m vid of
        None \<Rightarrow> (False, m)
      | Some vote \<Rightarrow> (case cancel vote of (success, vote') \<Rightarrow> (success, put_vote m vid vote')))"

definition check_and_finalize_vote ::
  "VoteManager \<Rightarrow> string \<Rightarrow> real \<Rightarrow> VoteStatus option \<times> VoteManager" where
  "check_and_finalize_vote m vid now =
     (case get_vote m vid of
        None \<Rightarrow> (None, m)
      | Some vote \<Rightarrow> (case check_result vote now of (r, vote') \<Rightarrow> (r, put_vote m vid vote')))"

definition del_vote :: "string \<Rightarrow> VoteManager \<Rightarrow> VoteManager" where
  "del_vote vid m = m\<lparr>active_votes := AList.delete vid (active_votes m)\<rparr>"

definition cleanup_finished_votes :: "VoteManager \<Rightarrow> int \<Rightarrow> real \<Rightarrow> int \<times> VoteManager" where
  "cleanup_finished_votes m keep_recent_minutes now =
     (let keep = (if keep_recent_minutes < 0 then 0 else keep_recent_minutes);
          current_time = now;
          cutoff_time = current_time - real_of_int (keep * 60);
          to_remove =
            map fst (filter (\<lambda>(vid, vote). status vote \<noteq> PENDING \<and> start_time vote < cutoff_time)
                            (active_votes m))
      in (int (length to_remove), fold del_vote to_remove m))"

subsection \<open>The decision rule in the words of the specification\<close>




text \<open>
  The ballots a cleanup sweep is to purge, in the words of the specification: the status
  is terminal and the age \<open>now - start_time\<close> exceeds the retention window; the window
  is \<open>retentionMinutes\<close> minutes, a negative number of minutes counting as none.
\<close>

definition purgeable :: "int \<Rightarrow> real \<Rightarrow> Vote \<Rightarrow> bool" where
  "purgeable retentionMinutes now v \<longleftrightarrow>
     status v \<noteq> PENDING \<and> now - start_time v > real_of_int (max 0 retentionMinutes) * 60"

subsection \<open>Example objects\<close>

definition VoteTypeRegistry_init :: VoteTypeRegistry where
  "VoteTypeRegistry_init = \<lparr> registry = [], keyword_map = [] \<rparr>"

definition shutdown_config :: VoteTypeConfig where
  "shutdown_config =
     \<lparr> cfg_vote_type = ''shutdown'', name_key = ''shutdown_name'',
       description_key = ''shutdown_description'', cfg_required_percentage = 1,
       cfg_timeout = 300, cfg_callback = None, start_keywords = [''stop''],
       consult_keywords = [''lag''] \<rparr>"

definition shutdown_config2 :: VoteTypeConfig where
  "shutdown_config2 =
     \<lparr> cfg_vote_type = ''shutdown'', name_key = ''other_name'',
       description_key = ''other_description'', cfg_required_percentage = 1 / 2,
       cfg_timeout = 60, cfg_callback = None, start_keywords = [''stop'', ''halt''],
       consult_keywords = [''slow''] \<rparr>"

text \<open>Four eligible voters, threshold one half, timeout 1, created at time 0.\<close>

definition ballot4 :: Vote where
  "ballot4 = Vote_init ''shutdown_1_0'' ''shutdown'' ''alice'' ''A''
               {|''A'', ''B'', ''C'', ''D''|} (1 / 2) 1 None ''stop the server'' 1 0"





text \<open>A ballot with no eligible voter, and the manager that has just created it.\<close>

definition empty_ballot :: Vote where
  "empty_ballot = Vote_init ''shutdown_1_0'' ''shutdown'' ''alice'' ''A'' {||} 1 300 None
                    ''stop the server'' 1 0"

definition empty_mgr :: VoteManager where
  "empty_mgr = snd (create_vote VoteManager_init ''shutdown'' ''alice'' ''A'' {||} 1 300 None
                      ''stop the server'' 0 0)"

text \<open>A ballot created when the clock reads 5 and cancelled at once.\<close>

definition cancelled_mgr :: VoteManager where
  "cancelled_mgr =
     snd (delete_vote
            (snd (create_vote VoteManager_init ''shutdown'' ''alice'' ''A'' {|''A'', ''B''|} 1 300 None
                    ''stop the server'' 5 5))
            ''shutdown_1_5'')"

text \<open>
  Two ballots are created, the first one is cancelled while the second is still open,
  and a third one is created.
\<close>

definition collision_mgr :: VoteManager where
  "collision_mgr =
     (let m1 = snd (create_vote VoteManager_init ''shutdown'' ''alice'' ''A'' {|''A'', ''B''|} 1 300 None
                      ''stop the server'' 0 0);
          m2 = snd (create_vote m1 ''restart'' ''bob'' ''B'' {|''A'', ''B''|} 1 300 None
                      ''restart the server'' 0 0);
          m3 = snd (delete_vote m2 ''shutdown_1_0'');
          m4 = snd (create_vote m3 ''weather'' ''alice'' ''A'' {|''A'', ''B''|} 1 300 None
                      ''clear the weather'' 0 0)
      in m4)"

section \<open>Properties of a single ballot\<close>

subsection \<open>Helper lemmas\<close>

lemma terminal_call: "status v \<noteq> PENDING \<Longrightarrow> apply_call v c = v"
  by (cases c) (simp_all add: cast_vote_def withdraw_vote_def check_result_def cancel_def)

lemma terminal_calls: "status v \<noteq> PENDING \<Longrightarrow> apply_calls v cs = v"
  by (induction cs arbitrary: v) (simp_all add: terminal_call)

lemma disjoint_call:
  "yes_votes v |\<inter>| no_votes v = {||} \<Longrightarrow>
     yes_votes (apply_call v c) |\<inter>| no_votes (apply_call v c) = {||}"
  by (cases c) (auto simp add: cast_vote_def withdraw_vote_def check_result_def cancel_def Let_def)

lemma disjoint_calls:
  "yes_votes v |\<inter>| no_votes v = {||} \<Longrightarrow>
     yes_votes (apply_calls v cs) |\<inter>| no_votes (apply_calls v cs) = {||}"
  by (induction cs arbitrary: v) (simp_all add: disjoint_call)















lemma register_shutdown:
  "register VoteTypeRegistry_init shutdown_config =
     (True, \<lparr> registry = [(''shutdown'', shutdown_config)],
              keyword_map = [(''stop'', ''shutdown''), (''lag'', ''shutdown'')] \<rparr>)"
  by (simp add: register_def VoteTypeRegistry_init_def shutdown_config_def set_keyword_def)

subsection \<open>The decision rule\<close>



subsection \<open>Terminal states\<close>

text \<open>
  C3. Once the status of a ballot is not Pending, no sequence of \<open>cast_vote\<close>,
  \<open>withdraw_vote\<close>, \<open>check_result\<close> and \<open>cancel\<close> calls changes it (the ballot as a
  whole stays as it is), and \<open>check_result\<close>, after any number of such calls, returns
  the stored terminal status.
\<close>

theorem terminal_status_final:
  "status v \<noteq> PENDING \<Longrightarrow>
     apply_calls v cs = v \<and> status (apply_calls v cs) = status v \<and>
     check_result (apply_calls v cs) now = (Some (status v), v)"
  by (simp add: terminal_calls check_result_def)

theorem terminal_status_final_witness:
  "status (snd (cancel ballot4)) \<noteq> PENDING \<and>
   status (apply_calls (snd (cancel ballot4))
             [Cast ''A'' True, Withdraw ''A'', Check 1000, Cancel, Check 2000]) = CANCELLED \<and>
   fst (check_result (apply_calls (snd (cancel ballot4))
             [Cast ''A'' True, Withdraw ''A'', Check 1000, Cancel, Check 2000]) 3000) = Some CANCELLED"
proof -
  have s: "status (snd (cancel ballot4)) = CANCELLED"
    by (simp add: cancel_def ballot4_def Vote_init_def)
  have h: "status (snd (cancel ballot4)) \<noteq> PENDING"
    by (simp add: s)
  note t = terminal_status_final [OF h,
      of "[Cast ''A'' True, Withdraw ''A'', Check 1000, Cancel, Check 2000]" 3000]
  show ?thesis
    using h s t by (metis fst_conv)
qed

subsection \<open>Approve and reject sets\<close>

text \<open>
  C5. The approve set and the reject set stay disjoint: any sequence of calls on a
  ballot keeps them disjoint when they were disjoint before, and on a ballot fresh from
  the constructor they are disjoint after every sequence of calls.
\<close>

theorem approve_reject_disjoint:
  "(yes_votes v |\<inter>| no_votes v = {||} \<longrightarrow>
      yes_votes (apply_calls v cs) |\<inter>| no_votes (apply_calls v cs) = {||}) \<and>
   yes_votes (apply_calls (Vote_init vid vtype ini ini_id voters rp tmo cb descr idx now) cs) |\<inter>|
   no_votes (apply_calls (Vote_init vid vtype ini ini_id voters rp tmo cb descr idx now) cs) = {||}"
  by (simp add: disjoint_calls Vote_init_def)

theorem approve_reject_disjoint_witness:
  "yes_votes ballot4 |\<inter>| no_votes ballot4 = {||} \<and>
   yes_votes (apply_calls ballot4
      [Cast ''A'' True, Cast ''B'' False, Cast ''A'' False, Withdraw ''B'', Cast ''C'' True]) |\<inter>|
   no_votes (apply_calls ballot4
      [Cast ''A'' True, Cast ''B'' False, Cast ''A'' False, Withdraw ''B'', Cast ''C'' True]) = {||}"
proof -
  have h: "yes_votes ballot4 |\<inter>| no_votes ballot4 = {||}"
    by (simp add: ballot4_def Vote_init_def)
  note t = approve_reject_disjoint [of ballot4
      "[Cast ''A'' True, Cast ''B'' False, Cast ''A'' False, Withdraw ''B'', Cast ''C'' True]",
      THEN conjunct1, rule_format, OF h]
  show ?thesis using h t by (rule conjI)
qed

text \<open>
  C6. On a Pending ballot, casting the same choice for an eligible voter a second time
  returns accepted and not-new, and leaves the ballot (both sets, hence all counts)
  as it was after the first call.
\<close>

theorem cast_same_choice_twice:
  "status v = PENDING \<Longrightarrow> voter_id |\<in>| eligible_voters v \<Longrightarrow>
     cast_vote (snd (cast_vote v voter_id x)) voter_id x =
       ((True, False), snd (cast_vote v voter_id x))"
  by (cases x) (auto simp add: cast_vote_def Let_def)

theorem cast_same_choice_twice_witness:
  "status ballot4 = PENDING \<and> ''A'' |\<in>| eligible_voters ballot4 \<and>
   cast_vote ballot4 ''A'' True = ((True, True), ballot4\<lparr>yes_votes := {|''A''|}\<rparr>) \<and>
   cast_vote (ballot4\<lparr>yes_votes := {|''A''|}\<rparr>) ''A'' True =
     ((True, False), ballot4\<lparr>yes_votes := {|''A''|}\<rparr>)"
proof -
  have h1: "status ballot4 = PENDING" by (simp add: ballot4_def Vote_init_def)
  have h2: "''A'' |\<in>| eligible_voters ballot4" by (simp add: ballot4_def Vote_init_def)
  have c: "cast_vote ballot4 ''A'' True = ((True, True), ballot4\<lparr>yes_votes := {|''A''|}\<rparr>)"
    by (simp add: ballot4_def Vote_init_def cast_vote_def Let_def)
  show ?thesis using h1 h2 c cast_same_choice_twice [OF h1 h2, of True] by simp
qed

text \<open>
  C10. A failed mutation changes nothing: when \<open>cast_vote\<close> returns accepted = False
  (which happens exactly for a non-Pending ballot or an ineligible voter), or
  \<open>withdraw_vote\<close> returns False (exactly for a non-Pending ballot, an ineligible voter
  or a voter with no recorded vote), the ballot returned is the ballot passed in.
\<close>

theorem failed_mutation_atomic:
  "(fst (fst (cast_vote v voter_id vote_yes)) = False \<longrightarrow> snd (cast_vote v voter_id vote_yes) = v)
   \<and> (fst (fst (cast_vote v voter_id vote_yes)) = False \<longleftrightarrow>
        (status v \<noteq> PENDING \<or> voter_id |\<notin>| eligible_voters v))
   \<and> (fst (withdraw_vote v voter_id) = False \<longrightarrow> snd (withdraw_vote v voter_id) = v)
   \<and> (fst (withdraw_vote v voter_id) = False \<longleftrightarrow>
        (status v \<noteq> PENDING \<or> voter_id |\<notin>| eligible_voters v \<or>
         (voter_id |\<notin>| yes_votes v \<and> voter_id |\<notin>| no_votes v)))"
  by (simp add: cast_vote_def withdraw_vote_def Let_def)

theorem failed_mutation_atomic_witness:
  "fst (fst (cast_vote ballot4 ''Z'' True)) = False \<and> snd (cast_vote ballot4 ''Z'' True) = ballot4 \<and>
   fst (withdraw_vote ballot4 ''Z'') = False \<and> snd (withdraw_vote ballot4 ''Z'') = ballot4"
proof -
  have "''Z'' |\<notin>| eligible_voters ballot4" by (simp add: ballot4_def Vote_init_def)
  then show ?thesis using failed_mutation_atomic [of ballot4 "''Z''" True] by simp
qed

section \<open>Properties of the registry\<close>

text \<open>
  C8. Registering a config whose kind is already registered returns False and leaves
  the registry as it was: the kind map and the keyword map are unchanged, the kind
  resolves to the config registered before, and every keyword resolves as before.
\<close>

theorem register_duplicate_kind:
  "map_of (registry r) (cfg_vote_type c) \<noteq> None \<Longrightarrow>
     register r c = (False, r) \<and>
     registry (snd (register r c)) = registry r \<and>
     keyword_map (snd (register r c)) = keyword_map r \<and>
     get_config (snd (register r c)) (cfg_vote_type c) = get_config r (cfg_vote_type c) \<and>
     get_by_keyword (snd (register r c)) kw = get_by_keyword r kw"
  by (simp add: register_def)

theorem register_duplicate_kind_witness:
  "map_of (registry (snd (register VoteTypeRegistry_init shutdown_config)))
          (cfg_vote_type shutdown_config2) \<noteq> None \<and>
   fst (register (snd (register VoteTypeRegistry_init shutdown_config)) shutdown_config2) = False \<and>
   get_config (snd (register (snd (register VoteTypeRegistry_init shutdown_config)) shutdown_config2))
      ''shutdown'' = Some shutdown_config \<and>
   get_by_keyword (snd (register (snd (register VoteTypeRegistry_init shutdown_config)) shutdown_config2))
      ''halt'' = Inr None \<and>
   get_by_keyword (snd (register (snd (register VoteTypeRegistry_init shutdown_config)) shutdown_config2))
      ''stop'' = Inr (Some (shutdown_config, False))"
proof -
  have h: "map_of (registry (snd (register VoteTypeRegistry_init shutdown_config)))
                  (cfg_vote_type shutdown_config2) \<noteq> None"
    by (simp add: register_shutdown) (simp add: shutdown_config2_def)
  have k: "cfg_vote_type shutdown_config2 = ''shutdown''" by (simp add: shutdown_config2_def)
  have g: "get_config (snd (register VoteTypeRegistry_init shutdown_config)) ''shutdown'' =
             Some shutdown_config"
    by (simp add: register_shutdown get_config_def)
  have b1: "get_by_keyword (snd (register VoteTypeRegistry_init shutdown_config)) ''halt'' = Inr None"
    by (simp add: register_shutdown get_by_keyword_def)
  have b2: "get_by_keyword (snd (register VoteTypeRegistry_init shutdown_config)) ''stop'' =
              Inr (Some (shutdown_config, False))"
    by (simp add: register_shutdown get_by_keyword_def) (simp add: shutdown_config_def)
  show ?thesis
    using h k g b1 b2
      register_duplicate_kind [OF h, of "''halt''"]
      register_duplicate_kind [OF h, of "''stop''"]
    by simp
qed

section \<open>Properties of the manager\<close>

subsection \<open>Helper lemmas\<close>

lemma str_int_small [simp]:
  "str_int 0 = ''0''" "str_int 1 = ''1''" "str_int 2 = ''2''" "str_int 3 = ''3''"
  "str_int 5 = ''5''"
  by (simp_all add: str_int_def str_nat.simps digit_char_def)

lemma int_of_float_small [simp]:
  "int_of_float 0 = 0" "int_of_float 5 = 5"
  by (simp_all add: int_of_float_def)

lemma create_vote_cases:
  "create_vote m vtype ini ini_id voters rp tmo cb descr t_id t_start =
     (if list_ex (\<lambda>v. vote_type v = vtype \<and> status v = PENDING) (map snd (active_votes m))
      then (None, m)
      else (Some (Vote_init (vtype @ ''_'' @ str_int (vote_counter m + 1) @ ''_'' @ str_int (int_of_float t_id))
                    vtype ini ini_id voters rp tmo cb descr
                    (int (length (get_all_pending_votes m)) + 1) t_start),
            \<lparr>active_votes = AList.update
                (vtype @ ''_'' @ str_int (vote_counter m + 1) @ ''_'' @ str_int (int_of_float t_id))
                (Vote_init (vtype @ ''_'' @ str_int (vote_counter m + 1) @ ''_'' @ str_int (int_of_float t_id))
                    vtype ini ini_id voters rp tmo cb descr
                    (int (length (get_all_pending_votes m)) + 1) t_start)
                (active_votes m),
              vote_counter = vote_counter m + 1\<rparr>))"
  by (simp add: create_vote_def Let_def get_all_pending_votes_def)

lemma create_vote_index:
  "fst (create_vote m vtype ini ini_id voters rp tmo cb descr t_id t_start) = Some vote \<Longrightarrow>
     index vote = 1 + int (length (get_all_pending_votes m))"
  by (auto simp add: create_vote_cases Vote_init_def split: if_splits)

lemma fold_del_vote:
  "fold del_vote ks m = m\<lparr>active_votes := filter (\<lambda>e. fst e \<notin> set ks) (active_votes m)\<rparr>"
proof (induction ks arbitrary: m)
  case Nil
  then show ?case by simp
next
  case (Cons k ks)
  have "filter (\<lambda>e. fst e \<notin> set ks) (AList.delete k (active_votes m)) =
        filter (\<lambda>e. fst e \<notin> set (k # ks)) (active_votes m)"
    by (induction "active_votes m") (auto simp add: AList.delete_eq intro: filter_cong)
  with Cons show ?case by (simp add: del_vote_def)
qed

lemma keys_of_filter:
  assumes "distinct (map fst xs)" "e \<in> set xs"
  shows "fst e \<in> set (map fst (filter P xs)) \<longleftrightarrow> P e"
proof
  assume "fst e \<in> set (map fst (filter P xs))"
  then obtain e' where e': "e' \<in> set xs" "P e'" "fst e' = fst e" by auto
  with assms have "e' = e" by (metis eq_key_imp_eq_value prod.collapse)
  with e' show "P e" by simp
next
  assume "P e" with assms(2) show "fst e \<in> set (map fst (filter P xs))" by auto
qed

lemma cleanup_eq:
  assumes "distinct (map fst (active_votes m))"
  shows "cleanup_finished_votes m keep now =
          (int (length (filter (\<lambda>e. purgeable keep now (snd e)) (active_votes m))),
           m\<lparr>active_votes := filter (\<lambda>e. \<not> purgeable keep now (snd e)) (active_votes m)\<rparr>)"
proof -
  let ?P = "\<lambda>e. purgeable keep now (snd e)"
  have P: "(\<lambda>(vid, vote). status vote \<noteq> PENDING \<and>
              start_time vote < now - real_of_int ((if keep < 0 then 0 else keep) * 60)) = ?P"
    by (auto simp add: purgeable_def fun_eq_iff max_def)
  have "filter (\<lambda>e. fst e \<notin> set (map fst (filter ?P (active_votes m)))) (active_votes m) =
        filter (\<lambda>e. \<not> ?P e) (active_votes m)"
    by (rule filter_cong) (simp_all only: keys_of_filter [OF assms])
  then show ?thesis
    unfolding cleanup_finished_votes_def Let_def P fold_del_vote by simp
qed

lemma map_of_filter_distinct:
  assumes "distinct (map fst xs)" "map_of xs k = Some v" "P (k, v)"
  shows "map_of (filter P xs) k = Some v"
  using assms
proof (induction xs)
  case Nil
  then show ?case by simp
next
  case (Cons a xs)
  then show ?case
    by (cases a) (auto simp add: image_iff dest: map_of_SomeD)
qed

lemma create_empty_eval:
  "create_vote VoteManager_init ''shutdown'' ''alice'' ''A'' {||} 1 300 None ''stop the server'' 0 0 =
     (Some empty_ballot, \<lparr>active_votes = [(''shutdown_1_0'', empty_ballot)], vote_counter = 1\<rparr>)"
  by (simp add: create_vote_def Let_def VoteManager_init_def get_all_pending_votes_def
        empty_ballot_def)

lemma empty_mgr_eval:
  "empty_mgr = \<lparr>active_votes = [(''shutdown_1_0'', empty_ballot)], vote_counter = 1\<rparr>"
  by (simp add: empty_mgr_def create_empty_eval)

lemma empty_ballot_facts:
  "status empty_ballot = PENDING" "eligible_voters empty_ballot = {||}"
  "vote_type empty_ballot = ''shutdown''"
  by (simp_all add: empty_ballot_def Vote_init_def)

lemma cancelled_mgr_eval:
  "cancelled_mgr =
     \<lparr>active_votes = [(''shutdown_1_5'',
        (Vote_init ''shutdown_1_5'' ''shutdown'' ''alice'' ''A'' {|''A'', ''B''|} 1 300 None
                    ''stop the server'' 1 5)\<lparr>status := CANCELLED\<rparr>)], vote_counter = 1\<rparr>"
  by (simp add: cancelled_mgr_def create_vote_def Let_def VoteManager_init_def
        get_all_pending_votes_def delete_vote_def cancel_def get_vote_def put_vote_def Vote_init_def)

lemma collision_mgr_eval:
  "collision_mgr =
    \<lparr>active_votes =
     [(''shutdown_1_0'', (Vote_init ''shutdown_1_0'' ''shutdown'' ''alice'' ''A'' {|''A'', ''B''|} 1 300 None
                    ''stop the server'' 1 0)\<lparr>status := CANCELLED\<rparr>),
      (''restart_2_0'', Vote_init ''restart_2_0'' ''restart'' ''bob'' ''B'' {|''A'', ''B''|} 1 300 None
                    ''restart the server'' 2 0),
      (''weather_3_0'', Vote_init ''weather_3_0'' ''weather'' ''alice'' ''A'' {|''A'', ''B''|} 1 300 None
                    ''clear the weather'' 2 0)], vote_counter = 3\<rparr>"
proof -
  define m1 where "m1 = \<lparr>active_votes =
     [(''shutdown_1_0'', Vote_init ''shutdown_1_0'' ''shutdown'' ''alice'' ''A'' {|''A'', ''B''|} 1 300 None
                    ''stop the server'' 1 0)], vote_counter = 1\<rparr>"
  define m2 where "m2 = \<lparr>active_votes =
     [(''shutdown_1_0'', Vote_init ''shutdown_1_0'' ''shutdown'' ''alice'' ''A'' {|''A'', ''B''|} 1 300 None
                    ''stop the server'' 1 0),
      (''restart_2_0'', Vote_init ''restart_2_0'' ''restart'' ''bob'' ''B'' {|''A'', ''B''|} 1 300 None
                    ''restart the server'' 2 0)], vote_counter = 2\<rparr>"
  define m3 where "m3 = \<lparr>active_votes =
     [(''shutdown_1_0'', (Vote_init ''shutdown_1_0'' ''shutdown'' ''alice'' ''A'' {|''A'', ''B''|} 1 300 None
                    ''stop the server'' 1 0)\<lparr>status := CANCELLED\<rparr>),
      (''restart_2_0'', Vote_init ''restart_2_0'' ''restart'' ''bob'' ''B'' {|''A'', ''B''|} 1 300 None
                    ''restart the server'' 2 0)], vote_counter = 2\<rparr>"
  have s1: "snd (create_vote VoteManager_init ''shutdown'' ''alice'' ''A'' {|''A'', ''B''|} 1 300 None
                      ''stop the server'' 0 0) = m1"
    by (simp add: m1_def create_vote_def Let_def VoteManager_init_def get_all_pending_votes_def)
  have s2: "snd (create_vote m1 ''restart'' ''bob'' ''B'' {|''A'', ''B''|} 1 300 None
                      ''restart the server'' 0 0) = m2"
    by (simp add: m1_def m2_def create_vote_def Let_def get_all_pending_votes_def Vote_init_def)
  have s3: "snd (delete_vote m2 ''shutdown_1_0'') = m3"
    by (simp add: m2_def m3_def delete_vote_def get_vote_def put_vote_def cancel_def Vote_init_def)
  have s4: "snd (create_vote m3 ''weather'' ''alice'' ''A'' {|''A'', ''B''|} 1 300 None
                      ''clear the weather'' 0 0) =
    \<lparr>active_votes =
     [(''shutdown_1_0'', (Vote_init ''shutdown_1_0'' ''shutdown'' ''alice'' ''A'' {|''A'', ''B''|} 1 300 None
                    ''stop the server'' 1 0)\<lparr>status := CANCELLED\<rparr>),
      (''restart_2_0'', Vote_init ''restart_2_0'' ''restart'' ''bob'' ''B'' {|''A'', ''B''|} 1 300 None
                    ''restart the server'' 2 0),
      (''weather_3_0'', Vote_init ''weather_3_0'' ''weather'' ''alice'' ''A'' {|''A'', ''B''|} 1 300 None
                    ''clear the weather'' 2 0)], vote_counter = 3\<rparr>"
    by (simp add: m3_def create_vote_def Let_def get_all_pending_votes_def Vote_init_def)
  show ?thesis
    unfolding collision_mgr_def Let_def s1 s2 s3 s4 ..
qed

subsection \<open>Display indices\<close>

text \<open>
  C1. The claim is that the display indices of the Pending ballots are always exactly
  \<open>{1, ..., N}\<close>, without gaps or duplicates. The run \<open>collision_mgr\<close> (create
  a shutdown ballot, create a restart ballot, cancel the shutdown ballot, create a
  weather ballot) shows
  what \<open>create_vote\<close> does instead: the index is \<open>1 +\<close> the number of Pending ballots at
  creation and is never renumbered, so the two Pending ballots both carry index 2, no
  Pending ballot carries index 1, and \<open>get_vote_by_index 2\<close> finds only the first of
  the two.
\<close>

theorem pending_indices_collide:
  "map (\<lambda>v. (vote_id v, index v)) (get_all_pending_votes collision_mgr) =
     [(''restart_2_0'', 2), (''weather_3_0'', 2)] \<and>
   get_vote_by_index collision_mgr 1 = None \<and>
   map_option vote_id (get_vote_by_index collision_mgr 2) = Some ''restart_2_0''"
  by (simp add: get_all_pending_votes_def get_vote_by_index_def collision_mgr_eval Vote_init_def)

subsection \<open>Creation\<close>

text \<open>
  C4, as stated, fails: \<open>create_vote\<close> does not look at the eligible-voter set. Called
  on a new manager with an empty set it returns a Pending ballot whose eligibility set
  is empty.
\<close>

theorem create_vote_empty_eligibility:
  "fst (create_vote VoteManager_init ''shutdown'' ''alice'' ''A'' {||} 1 300 None
          ''stop the server'' 0 0) = Some empty_ballot \<and>
   eligible_voters empty_ballot = {||} \<and> status empty_ballot = PENDING"
  by (simp add: create_empty_eval empty_ballot_facts)

text \<open>
  C4, amended. \<open>create_vote\<close> returns \<open>None\<close> exactly when a Pending ballot of the same
  kind exists, and then leaves the manager as it was; otherwise it creates a Pending
  ballot of that kind with empty approve and reject sets, whose eligibility set is the
  set passed in, whatever it is, and stores it under its id.
\<close>

theorem create_vote_only_checks_kind:
  "(fst (create_vote m vtype ini ini_id voters rp tmo cb descr t_id t_start) = None \<longleftrightarrow>
      (\<exists>v \<in> set (map snd (active_votes m)). vote_type v = vtype \<and> status v = PENDING)) \<and>
   (fst (create_vote m vtype ini ini_id voters rp tmo cb descr t_id t_start) = None \<longrightarrow>
      snd (create_vote m vtype ini ini_id voters rp tmo cb descr t_id t_start) = m) \<and>
   (\<forall>vote. fst (create_vote m vtype ini ini_id voters rp tmo cb descr t_id t_start) = Some vote \<longrightarrow>
      eligible_voters vote = voters \<and> vote_type vote = vtype \<and> status vote = PENDING \<and>
      yes_votes vote = {||} \<and> no_votes vote = {||} \<and>
      get_vote (snd (create_vote m vtype ini ini_id voters rp tmo cb descr t_id t_start)) (vote_id vote)
        = Some vote)"
  by (auto simp add: create_vote_cases list_ex_iff Vote_init_def get_vote_def update_Some_unfold)

theorem create_vote_only_checks_kind_witness:
  "(\<exists>v \<in> set (map snd (active_votes empty_mgr)). vote_type v = ''shutdown'' \<and> status v = PENDING) \<and>
   fst (create_vote empty_mgr ''shutdown'' ''bob'' ''B'' {|''A'', ''B''|} 1 300 None
          ''stop the server'' 7 7) = None \<and>
   snd (create_vote empty_mgr ''shutdown'' ''bob'' ''B'' {|''A'', ''B''|} 1 300 None
          ''stop the server'' 7 7) = empty_mgr"
proof -
  have h: "\<exists>v \<in> set (map snd (active_votes empty_mgr)). vote_type v = ''shutdown'' \<and> status v = PENDING"
    by (simp add: empty_mgr_eval empty_ballot_facts)
  note t = create_vote_only_checks_kind [of empty_mgr "''shutdown''" "''bob''" "''B''"
      "{|''A'', ''B''|}" 1 300 None "''stop the server''" 7 7]
  show ?thesis using h t by blast
qed

subsection \<open>Cleanup\<close>

text \<open>
  C7, as stated, fails in its last part: \<open>cleanup_finished_votes\<close> with a retention of 0
  does not remove every terminal ballot. The test is \<open>start_time < now\<close>, so a ballot
  created and cancelled while the clock reads 5 survives a sweep made at the same
  reading.
\<close>

theorem cleanup_zero_keeps_new_terminal:
  "map (\<lambda>e. (status (snd e), start_time (snd e))) (active_votes cancelled_mgr) = [(CANCELLED, 5)] \<and>
   cleanup_finished_votes cancelled_mgr 0 5 = (0, cancelled_mgr)"
  by (simp add: cancelled_mgr_eval cleanup_finished_votes_def Vote_init_def)

text \<open>
  C7, amended. On a manager whose dict holds each id once, \<open>cleanup_finished_votes\<close>
  removes exactly the ballots that are terminal and whose age is strictly greater than
  the retention window (a negative window counting as 0), keeps the others in their
  order, and returns the number removed; a Pending ballot is never removed, whatever
  its age. With a retention of 0 (or less) the ballots that remain are exactly the
  Pending ones and the terminal ones whose creation time is not before the clock
  reading of the sweep.
\<close>

theorem cleanup_purges_expired:
  assumes "distinct (map fst (active_votes m))"
  shows "cleanup_finished_votes m keep now =
           (int (length (filter (\<lambda>e. purgeable keep now (snd e)) (active_votes m))),
            m\<lparr>active_votes := filter (\<lambda>e. \<not> purgeable keep now (snd e)) (active_votes m)\<rparr>) \<and>
         (\<forall>vid v. get_vote m vid = Some v \<and> status v = PENDING \<longrightarrow>
            get_vote (snd (cleanup_finished_votes m keep now)) vid = Some v) \<and>
         (keep \<le> 0 \<longrightarrow>
            (\<forall>e \<in> set (active_votes m).
               e \<in> set (active_votes (snd (cleanup_finished_votes m keep now))) \<longleftrightarrow>
               status (snd e) = PENDING \<or> now \<le> start_time (snd e)))"
proof -
  have a: "\<forall>vid v. get_vote m vid = Some v \<and> status v = PENDING \<longrightarrow>
            get_vote (snd (cleanup_finished_votes m keep now)) vid = Some v"
    by (simp add: cleanup_eq [OF assms] get_vote_def map_of_filter_distinct [OF assms] purgeable_def)
  have b: "keep \<le> 0 \<longrightarrow>
            (\<forall>e \<in> set (active_votes m).
               e \<in> set (active_votes (snd (cleanup_finished_votes m keep now))) \<longleftrightarrow>
               status (snd e) = PENDING \<or> now \<le> start_time (snd e))"
    by (auto simp add: cleanup_eq [OF assms] purgeable_def max_def)
  show ?thesis using a b by (simp add: cleanup_eq [OF assms])
qed

text \<open>
  The witness sweeps \<open>collision_mgr\<close> (one cancelled and two Pending ballots, all created
  at time 0) with a retention of 10 minutes: at time 601 the cancelled ballot goes and
  the Pending ones stay; at time 600, an age equal to the window, nothing goes.
\<close>

theorem cleanup_purges_expired_witness:
  "distinct (map fst (active_votes collision_mgr)) \<and>
   fst (cleanup_finished_votes collision_mgr 10 601) = 1 \<and>
   map fst (active_votes (snd (cleanup_finished_votes collision_mgr 10 601))) =
     [''restart_2_0'', ''weather_3_0''] \<and>
   fst (cleanup_finished_votes collision_mgr 10 600) = 0"
proof -
  have d: "distinct (map fst (active_votes collision_mgr))"
    by (simp add: collision_mgr_eval)
  have p: "filter (\<lambda>e. purgeable 10 601 (snd e)) (active_votes collision_mgr) =
             [(''shutdown_1_0'',
               (Vote_init ''shutdown_1_0'' ''shutdown'' ''alice'' ''A'' {|''A'', ''B''|} 1 300 None
                    ''stop the server'' 1 0)\<lparr>status := CANCELLED\<rparr>)]"
    by (simp add: collision_mgr_eval purgeable_def Vote_init_def)
  have q: "map fst (filter (\<lambda>e. \<not> purgeable 10 601 (snd e)) (active_votes collision_mgr)) =
             [''restart_2_0'', ''weather_3_0'']"
    by (simp add: collision_mgr_eval purgeable_def Vote_init_def)
  have r: "filter (\<lambda>e. purgeable 10 600 (snd e)) (active_votes collision_mgr) = []"
    by (simp add: collision_mgr_eval purgeable_def Vote_init_def)
  show ?thesis
    using d cleanup_purges_expired [OF d, of 10 601, THEN conjunct1]
      cleanup_purges_expired [OF d, of 10 600, THEN conjunct1]
    by (simp add: p q r)
qed

subsection \<open>Ballots without eligible voters\<close>

text \<open>
  C9. A Pending ballot whose eligibility set is empty is never decided:
  \<open>check_result\<close> returns \<open>None\<close> and leaves the ballot as it is at every clock reading,
  however late, and however often it is called; through the manager,
  \<open>check_and_finalize_vote\<close> returns \<open>None\<close> and changes nothing, and
  \<open>cleanup_finished_votes\<close> never removes the ballot.
\<close>

theorem empty_eligibility_stays_pending:
  assumes "status v = PENDING" "eligible_voters v = {||}"
  shows "check_result v now = (None, v) \<and>
         apply_calls v (map Check ts) = v \<and>
         (distinct (map fst (active_votes m)) \<and> get_vote m vid = Some v \<longrightarrow>
            check_and_finalize_vote m vid now = (None, m) \<and>
            get_vote (snd (cleanup_finished_votes m keep now')) vid = Some v)"
proof -
  have c: "\<And>t. check_result v t = (None, v)"
    using assms by (simp add: check_result_def)
  have a: "apply_calls v (map Check ts) = v"
    by (induction ts) (simp_all add: c)
  have "\<not> purgeable keep now' v" using assms(1) by (simp add: purgeable_def)
  then show ?thesis
    using c a
    by (auto simp add: check_and_finalize_vote_def get_vote_def put_vote_def cleanup_eq
        AList.update_triv map_of_filter_distinct)
qed

theorem empty_eligibility_stays_pending_witness:
  "status empty_ballot = PENDING \<and> eligible_voters empty_ballot = {||} \<and>
   distinct (map fst (active_votes empty_mgr)) \<and>
   get_vote empty_mgr ''shutdown_1_0'' = Some empty_ballot \<and>
   check_result empty_ballot 1000000 = (None, empty_ballot) \<and>
   check_and_finalize_vote empty_mgr ''shutdown_1_0'' 1000000 = (None, empty_mgr) \<and>
   get_vote (snd (cleanup_finished_votes empty_mgr 0 2000000)) ''shutdown_1_0'' = Some empty_ballot"
proof -
  have d: "distinct (map fst (active_votes empty_mgr)) \<and>
           get_vote empty_mgr ''shutdown_1_0'' = Some empty_ballot"
    by (simp add: empty_mgr_eval get_vote_def)
  note t = empty_eligibility_stays_pending [OF empty_ballot_facts(1,2),
      of 1000000 "[]" empty_mgr "''shutdown_1_0''" 0 2000000]
  show ?thesis
    using empty_ballot_facts(1,2) d t by blast
qed

end
